theory Spec2Isabelle
  imports Main "HOL-Library.Sublist"
begin

section \<open>Paths\<close>

text \<open>
  A \<^verbatim>\<open>pathlib.Path\<close> is kept the way pathlib keeps it (POSIX flavour): an anchor,
  empty for a relative path, and the list of its components. The operations below are the
  purely lexical ones of pathlib; the ones that look at the disk are fields of the
  environment further down.
\<close>

datatype path = Path (anchor: string) (segs: "string list")

datatype py_error = ValueError | OSError | SyntaxError | RuntimeError

text \<open>A statement that may raise, followed by the rest of the block: the error of the first
  is the error of the whole.\<close>

fun and_then :: "py_error + 'a \<Rightarrow> ('a \<Rightarrow> py_error + 'b) \<Rightarrow> py_error + 'b" where
  "and_then (Inl err) f = Inl err"
| "and_then (Inr x) f = f x"

definition slash :: char where
  "slash = CHR ''/''"

definition backslash :: char where
  "backslash = CHR 0x5C"

fun split_on :: "char \<Rightarrow> string \<Rightarrow> string list" where
  "split_on d [] = [[]]"
| "split_on d (c # cs) =
     (if c = d then [] # split_on d cs
      else (case split_on d cs of w # ws \<Rightarrow> (c # w) # ws | [] \<Rightarrow> [[c]]))"

fun join_with :: "string \<Rightarrow> string list \<Rightarrow> string" where
  "join_with d [] = []"
| "join_with d [w] = w"
| "join_with d (w # v # ws) = w @ d @ join_with d (v # ws)"

text \<open>\<^verbatim>\<open>Path(s)\<close>: empty components and \<^verbatim>\<open>.\<close> are dropped, a leading slash is the
  root, and exactly two leading slashes are kept as the root \<^verbatim>\<open>//\<close>.\<close>

definition parse_path :: "string \<Rightarrow> path" where
  "parse_path s =
     Path (if take 2 s = [slash, slash] \<and> take 3 s \<noteq> [slash, slash, slash] then [slash, slash]
           else if take 1 s = [slash] then [slash]
           else [])
          (filter (\<lambda>w. w \<noteq> [] \<and> w \<noteq> ''.'') (split_on slash s))"

text \<open>\<^verbatim>\<open>str(p)\<close>; the source's \<^verbatim>\<open>quote_path\<close> is exactly this.\<close>

definition str_path :: "path \<Rightarrow> string" where
  "str_path p =
     (if anchor p = [] \<and> segs p = [] then ''.'' else anchor p @ join_with [slash] (segs p))"

definition quote_path :: "path \<Rightarrow> string" where
  "quote_path p = str_path p"

definition is_absolute :: "path \<Rightarrow> bool" where
  "is_absolute p = (anchor p \<noteq> [])"

text \<open>\<^verbatim>\<open>a / b\<close>\<close>

definition joinpath :: "path \<Rightarrow> path \<Rightarrow> path" where
  "joinpath a b = (if is_absolute b then b else Path (anchor a) (segs a @ segs b))"

text \<open>\<^verbatim>\<open>p.parent\<close>: the parent of an anchor or of the empty path is the path itself.\<close>

definition path_parent :: "path \<Rightarrow> path" where
  "path_parent p = Path (anchor p) (butlast (segs p))"

text \<open>\<^verbatim>\<open>p.name\<close>: the last component, the empty string when there is none.\<close>

definition path_name :: "path \<Rightarrow> string" where
  "path_name p = (if segs p = [] then [] else last (segs p))"

text \<open>\<^verbatim>\<open>p.relative_to(other)\<close> raises \<^verbatim>\<open>ValueError\<close> unless \<^verbatim>\<open>other\<close> is
  \<^verbatim>\<open>p\<close> or one of its parents.\<close>

definition relative_to :: "path \<Rightarrow> path \<Rightarrow> py_error + path" where
  "relative_to p other =
     (if anchor p = anchor other \<and> take (length (segs other)) (segs p) = segs other
      then Inr (Path [] (drop (length (segs other)) (segs p)))
      else Inl ValueError)"

section \<open>The environment\<close>

text \<open>
  Everything the analyzer reads from outside: the platform, the interpreter, the file
  system, the syntax-tree parser and the import-system lookup. One value of this record is
  one snapshot. Every call that goes to the disk, the parser or the import system can
  raise: \<^verbatim>\<open>resolve\<close> (a loop of symbolic links), \<^verbatim>\<open>exists\<close> and \<^verbatim>\<open>is_file\<close> (any
  error of the operating system other than a missing path, such as a name that is too
  long or a directory that may not be searched), reading a file, parsing and the lookup.
  The recursive glob for \<^verbatim>\<open>*.py\<close> is taken as it comes. The origin of a module spec is
  \<^verbatim>\<open>None\<close> or a string.

  A syntax tree keeps the kinds of node the extractor tells apart; the value of a
  constant is a string or something else.
\<close>

datatype const_value = CStr string | COther

datatype node =
    Module "node list"
  | Import "string list"
  | ImportFrom "string option" "string list" nat
  | Call node "node list" "(string option \<times> node) list"
  | Attribute node string
  | Name string
  | Constant const_value
  | Other "node list"

record env =
  os_name :: string
  sys_executable :: string
  resolve :: "path \<Rightarrow> py_error + path"
  exists :: "path \<Rightarrow> py_error + bool"
  is_file :: "path \<Rightarrow> py_error + bool"
  read_text :: "path \<Rightarrow> py_error + string"
  ast_parse :: "string \<Rightarrow> py_error + node"
  rglob_py :: "path \<Rightarrow> path list"
  find_spec :: "string \<Rightarrow> py_error + string option option"
  sysconfig_stdlib :: path

definition data_sep :: "env \<Rightarrow> string" where
  "data_sep e = (if os_name e = ''nt'' then '';'' else '':'')"

section \<open>Command assembler\<close>

record BuildSpec =
  script_path :: path
  name :: "string option"
  onefile :: bool
  windowed :: bool
  clean :: bool
  icon_path :: "path option"
  add_datas :: "(path \<times> string) list"
  hidden_imports :: "string list"
  collect_all_pkgs :: "string list"
  extra_paths :: "path list option"
  noconfirm :: bool
  version_file :: "path option"
  noupx :: bool
  runtime_tmpdir :: "string option"

text \<open>Python's truth value of an \<^verbatim>\<open>Optional[str]\<close>: \<^verbatim>\<open>None\<close> and the empty string
  are false.\<close>

fun truthy :: "string option \<Rightarrow> bool" where
  "truthy None = False"
| "truthy (Some s) = (s \<noteq> [])"

text \<open>
  \<^verbatim>\<open>build_command\<close>, statement by statement: \<^verbatim>\<open>cmd\<close> is threaded through, every
  \<^verbatim>\<open>for\<close> loop is a \<open>fold\<close> that appends. The two calls of \<^verbatim>\<open>exists\<close> are made only
  for a path that is given and stand outside any \<^verbatim>\<open>try\<close>: an error they raise is the
  outcome of the function.
\<close>

definition build_command :: "env \<Rightarrow> BuildSpec \<Rightarrow> py_error + string list" where
  "build_command e b =
    (let cmd = [sys_executable e, ''-m'', ''PyInstaller''];
         cmd = (if clean b then cmd @ [''--clean''] else cmd);
         cmd = (if noconfirm b then cmd @ [''--noconfirm''] else cmd);
         cmd = cmd @ [if onefile b then ''--onefile'' else ''--onedir''];
         cmd = (if windowed b then cmd @ [''--windowed''] else cmd);
         cmd = (if truthy (name b) then cmd @ [''--name'', the (name b)] else cmd)
     in and_then
          (case icon_path b of
             Some ic \<Rightarrow>
               and_then (exists e ic)
                 (\<lambda>x. Inr (if x then cmd @ [''--icon'', quote_path ic] else cmd))
           | None \<Rightarrow> Inr cmd)
          (\<lambda>cmd.
            (let cmd = fold (\<lambda>(p, dest) c.
                         c @ [''--add-data'', quote_path p @ data_sep e @ dest])
                         (add_datas b) cmd;
                 cmd = fold (\<lambda>hi c. c @ [''--hidden-import'', hi]) (hidden_imports b) cmd;
                 cmd = fold (\<lambda>pkg c. c @ [''--collect-all'', pkg]) (collect_all_pkgs b) cmd;
                 cmd = (case extra_paths b of
                          Some eps \<Rightarrow> fold (\<lambda>ep c. c @ [''--paths'', quote_path ep]) eps cmd
                        | None \<Rightarrow> cmd);
                 cmd = (if noupx b then cmd @ [''--noupx''] else cmd);
                 cmd = (if truthy (runtime_tmpdir b)
                        then cmd @ [''--runtime-tmpdir'', the (runtime_tmpdir b)] else cmd)
             in and_then
                  (case version_file b of
                     Some vf \<Rightarrow>
                       and_then (exists e vf)
                         (\<lambda>x. Inr (if x then cmd @ [''--version-file'', quote_path vf]
                                    else cmd))
                   | None \<Rightarrow> Inr cmd)
                  (\<lambda>cmd. Inr (cmd @ [quote_path (script_path b)])))))"

section \<open>Module classifier\<close>

text \<open>\<^verbatim>\<open>name.split(".")[0] if name else name\<close>. \<^verbatim>\<open>str.split\<close> never returns an empty
  list, so the index cannot fail.\<close>

definition top_level_module :: "string \<Rightarrow> string" where
  "top_level_module nm =
     (if nm \<noteq> [] then (case split_on CHR ''.'' nm of w # _ \<Rightarrow> w | [] \<Rightarrow> nm) else nm)"

text \<open>\<^verbatim>\<open>p.parents\<close>: the ancestors of a path, nearest first.\<close>

definition path_parents :: "path \<Rightarrow> path list" where
  "path_parents p = map (\<lambda>k. Path (anchor p) (take k (segs p))) (rev [0..<length (segs p)])"

text \<open>
  The body of the \<^verbatim>\<open>try\<close> block of \<^verbatim>\<open>is_third_party\<close>. \<^verbatim>\<open>find_spec\<close> either raises or
  returns no spec or a spec, whose origin is \<^verbatim>\<open>None\<close> or a string.
\<close>

definition locate_module :: "env \<Rightarrow> string \<Rightarrow> py_error + bool" where
  "locate_module e m =
     (case find_spec e m of
        Inl err \<Rightarrow> Inl err
      | Inr None \<Rightarrow> Inr False
      | Inr (Some None) \<Rightarrow> Inr False
      | Inr (Some (Some org)) \<Rightarrow>
          if org = ''built-in'' then Inr False
          else and_then (resolve e (sysconfig_stdlib e))
                 (\<lambda>stdlib_path.
                    and_then (resolve e (parse_path org))
                      (\<lambda>origin. Inr (stdlib_path \<notin> set (path_parents origin)
                                       \<and> origin \<noteq> stdlib_path))))"

definition is_third_party :: "env \<Rightarrow> string \<Rightarrow> string set \<Rightarrow> (string \<rightharpoonup> string list) \<Rightarrow> bool" where
  "is_third_party e md stdlib pkg_map =
     (let m = top_level_module md in
      if m = [] \<or> m \<in> stdlib then False
      else if pkg_map m \<noteq> None then True
      else (case locate_module e m of Inl _ \<Rightarrow> True | Inr r \<Rightarrow> r))"

section \<open>Source import extractor\<close>

text \<open>
  The syntax tree keeps the node kinds the extractor distinguishes and, for every other
  kind, its child nodes. \<^verbatim>\<open>ast.walk\<close> is the library's breadth-first loop over a queue.
  The alias, keyword and expression-context nodes that \<^verbatim>\<open>ast.walk\<close> also yields pass none
  of the three \<^verbatim>\<open>isinstance\<close> tests and are left out of the queue; an alias is its name,
  a keyword the pair of its \<^verbatim>\<open>arg\<close> and \<^verbatim>\<open>value\<close>.
\<close>

fun iter_child_nodes :: "node \<Rightarrow> node list" where
  "iter_child_nodes (Module body) = body"
| "iter_child_nodes (Import names) = []"
| "iter_child_nodes (ImportFrom module names level) = []"
| "iter_child_nodes (Call func args keywords) = func # args @ map snd keywords"
| "iter_child_nodes (Attribute v attr) = [v]"
| "iter_child_nodes (Name ident) = []"
| "iter_child_nodes (Constant v) = []"
| "iter_child_nodes (Other children) = children"

lemma sum_list_size_eq: "sum_list (map (\<lambda>x. Suc (size x)) xs) = size_list size xs"
  by (induction xs) simp_all

lemma sum_list_snd_size_le:
  "sum_list (map (\<lambda>k. Suc (size (snd k))) ks) \<le> size_list (size_prod (\<lambda>_. 0) size) ks"
  by (induction ks) auto

lemma size_iter_child_nodes:
  "sum_list (map (\<lambda>x. Suc (size x)) (iter_child_nodes n)) \<le> size n"
proof (cases n)
  case (Module body)
  then show ?thesis by (simp add: sum_list_size_eq)
next
  case (Call func args kws)
  then show ?thesis
    using sum_list_snd_size_le [of kws] by (simp add: sum_list_size_eq comp_def)
next
  case (Other children)
  then show ?thesis by (simp add: sum_list_size_eq)
qed simp_all

function walk_queue :: "node list \<Rightarrow> node list" where
  "walk_queue [] = []"
| "walk_queue (n # todo) = n # walk_queue (todo @ iter_child_nodes n)"
  by pat_completeness auto
termination
proof (relation "measure (\<lambda>q. sum_list (map (\<lambda>x. Suc (size x)) q))")
  show "wf (measure (\<lambda>q. sum_list (map (\<lambda>x. Suc (size x)) q)))" by simp
next
  fix n :: node and todo :: "node list"
  show "(todo @ iter_child_nodes n, n # todo)
          \<in> measure (\<lambda>q. sum_list (map (\<lambda>x. Suc (size x)) q))"
    using size_iter_child_nodes [of n] by simp
qed

definition walk :: "node \<Rightarrow> node list" where
  "walk tree = walk_queue [tree]"

text \<open>\<^verbatim>\<open>_extract_str_constant\<close> on an interpreter that has \<^verbatim>\<open>ast.Constant\<close>, which every
  interpreter able to load the program has.\<close>

fun extract_str_constant :: "node \<Rightarrow> string option" where
  "extract_str_constant (Constant (CStr s)) = Some s"
| "extract_str_constant _ = None"

text \<open>The loop over the keywords: a keyword named \<^verbatim>\<open>name\<close> or \<^verbatim>\<open>module\<close> overwrites
  the source's variable \<^verbatim>\<open>mod\<close> (here \<open>md\<close>), and the loop stops at the first one that leaves it true.\<close>

fun keyword_loop :: "string option \<Rightarrow> (string option \<times> node) list \<Rightarrow> string option" where
  "keyword_loop md [] = md"
| "keyword_loop md ((arg, v) # kws) =
     (if arg = Some ''name'' \<or> arg = Some ''module''
      then (let md' = extract_str_constant v
            in if truthy md' then md' else keyword_loop md' kws)
      else keyword_loop md kws)"

fun func_name :: "node \<Rightarrow> string" where
  "func_name (Attribute v attr) = attr"
| "func_name (Name ident) = ident"
| "func_name _ = []"

text \<open>One iteration of the loop over \<^verbatim>\<open>ast.walk(tree)\<close>, on the pair of the two sets.\<close>

fun visit :: "node \<Rightarrow> string set \<times> string set \<Rightarrow> string set \<times> string set" where
  "visit (Import names) (imports, dynamic) =
     (fold (\<lambda>alias imps. if alias \<noteq> [] then insert (top_level_module alias) imps else imps)
        names imports, dynamic)"
| "visit (ImportFrom module names level) (imports, dynamic) =
     (if truthy module then (insert (top_level_module (the module)) imports, dynamic)
      else (imports, dynamic))"
| "visit (Call func args keywords) (imports, dynamic) =
     (if func_name func = ''import_module'' \<or> func_name func = ''__import__'' then
        (let md = (case args of [] \<Rightarrow> None | a # _ \<Rightarrow> extract_str_constant a);
             md = (if md = None then keyword_loop md keywords else md)
         in if truthy md then (imports, insert (top_level_module (the md)) dynamic)
            else (imports, dynamic))
      else (imports, dynamic))"
| "visit _ (imports, dynamic) = (imports, dynamic)"

definition parse_tree :: "node \<Rightarrow> string set \<times> string set" where
  "parse_tree tree = fold visit (walk tree) ({}, {})"

text \<open>\<^verbatim>\<open>parse_imports_from_file\<close>: a failure to read or to parse leaves both sets as they
  were initialised. Nothing in the loop itself can raise: the branch for calls has a
  \<^verbatim>\<open>try\<close> of its own, and the other two only read fields every such node has.\<close>

definition parse_imports_from_file :: "env \<Rightarrow> path \<Rightarrow> string set \<times> string set" where
  "parse_imports_from_file e py_file =
     (case read_text e py_file of
        Inl _ \<Rightarrow> ({}, {})
      | Inr src \<Rightarrow>
          (case ast_parse e src of
             Inl _ \<Rightarrow> ({}, {})
           | Inr tree \<Rightarrow> parse_tree tree))"

section \<open>Literal file reference extractor\<close>

text \<open>
  \<^verbatim>\<open>FILE_EXT_PATTERN\<close>: one or more characters of the class
  \<^verbatim>\<open>[A-Za-z0-9_\-./\\:]\<close>, as few as possible, then a dot and one of the extensions,
  tried in the order of the alternation, letters compared without case. The text is a
  list of characters below code point 256, on which ignoring case adds nothing to the class.
\<close>

definition ord :: "char \<Rightarrow> nat" where
  "ord c = of_char c"

definition path_char :: "char \<Rightarrow> bool" where
  "path_char c =
     ((ord CHR ''A'' \<le> ord c \<and> ord c \<le> ord CHR ''Z'')
      \<or> (ord CHR ''a'' \<le> ord c \<and> ord c \<le> ord CHR ''z'')
      \<or> (ord CHR ''0'' \<le> ord c \<and> ord c \<le> ord CHR ''9'')
      \<or> c = CHR ''_'' \<or> c = CHR ''-'' \<or> c = CHR ''.'' \<or> c = slash \<or> c = backslash
      \<or> c = CHR '':'')"

definition lower_char :: "char \<Rightarrow> char" where
  "lower_char c =
     (if ord CHR ''A'' \<le> ord c \<and> ord c \<le> ord CHR ''Z'' then char_of (ord c + 32) else c)"

definition FILE_EXTENSIONS :: "string list" where
  "FILE_EXTENSIONS =
     [''csv'', ''tsv'', ''xlsx'', ''xls'', ''json'', ''yaml'', ''yml'', ''ini'', ''txt'', ''png'',
      ''jpg'', ''jpeg'', ''gif'', ''svg'', ''ico'', ''qml'', ''ui'', ''html'', ''css'', ''toml'',
      ''md'', ''db'', ''sqlite'', ''ttf'', ''otf'', ''xml'', ''jinja2'', ''jinja'', ''mo'', ''po'']"

text \<open>The text matched by \<^verbatim>\<open>\.(?:csv|...)\<close> at the head of the input, if any.\<close>

definition match_dot_ext :: "string \<Rightarrow> string option" where
  "match_dot_ext s =
     (case s of
        [] \<Rightarrow> None
      | c # cs \<Rightarrow>
          if c = CHR ''.'' then
            (case find (\<lambda>x. map lower_char (take (length x) cs) = x) FILE_EXTENSIONS of
               Some x \<Rightarrow> Some (c # take (length x) cs)
             | None \<Rightarrow> None)
          else None)"

text \<open>The lazy repetition: with \<open>acc\<close> already consumed, try the rest of the pattern
  first and take one more character of the class only when that fails.\<close>

fun match_lazy :: "string \<Rightarrow> string \<Rightarrow> string option" where
  "match_lazy acc [] = None"
| "match_lazy acc (c # cs) =
     (case match_dot_ext (c # cs) of
        Some x \<Rightarrow> Some (acc @ x)
      | None \<Rightarrow> if path_char c then match_lazy (acc @ [c]) cs else None)"

definition match_here :: "string \<Rightarrow> string option" where
  "match_here s =
     (case s of [] \<Rightarrow> None | c # cs \<Rightarrow> if path_char c then match_lazy [c] cs else None)"

lemma match_lazy_length: "match_lazy acc s = Some m \<Longrightarrow> length acc \<le> length m"
proof (induction acc s rule: match_lazy.induct)
  case (1 acc)
  then show ?case by simp
next
  case (2 acc c cs)
  show ?case
  proof (cases "match_dot_ext (c # cs)")
    case None
    with 2 show ?thesis by (auto split: if_splits)
  next
    case (Some x)
    with 2 show ?thesis by auto
  qed
qed

lemma match_here_nonempty: "match_here s = Some m \<Longrightarrow> 0 < length m"
  by (auto simp: match_here_def split: list.splits if_splits dest: match_lazy_length)

text \<open>\<^verbatim>\<open>FILE_EXT_PATTERN.finditer(src)\<close>: the matches from left to right, the search
  resuming after each match.\<close>

function finditer :: "string \<Rightarrow> string list" where
  "finditer [] = []"
| "finditer (c # cs) =
     (case match_here (c # cs) of
        Some m \<Rightarrow> m # finditer (drop (length m) (c # cs))
      | None \<Rightarrow> finditer cs)"
  by pat_completeness auto
termination
proof (relation "measure length")
  show "wf (measure length)" by simp
next
  fix c :: char and cs m :: string
  assume "match_here (c # cs) = Some m"
  then have "0 < length m" by (rule match_here_nonempty)
  then show "(drop (length m) (c # cs), c # cs) \<in> measure length" by simp
qed simp

text \<open>\<^verbatim>\<open>raw.replace("\\\\", "\\")\<close>: every pair of backslashes becomes one, from the
  left, without overlap.\<close>

fun replace_double_backslash :: "string \<Rightarrow> string" where
  "replace_double_backslash (a # b # cs) =
     (if a = backslash \<and> b = backslash then backslash # replace_double_backslash cs
      else a # replace_double_backslash (b # cs))"
| "replace_double_backslash cs = cs"

text \<open>One iteration of the loop over the matches. \<^verbatim>\<open>is_file\<close> is asked only when
  \<^verbatim>\<open>exists\<close> said yes, and both branches of the test on the project root add the
  candidate, as in the source.\<close>

definition literal_step ::
  "env \<Rightarrow> path \<Rightarrow> path \<Rightarrow> string \<Rightarrow> path set \<Rightarrow> py_error + path set" where
  "literal_step e py_file project_root raw found =
     (if raw = [] then Inr found
      else
        (let candidate = parse_path (replace_double_backslash raw)
         in and_then
              (if \<not> is_absolute candidate
               then resolve e (joinpath (path_parent py_file) candidate)
               else Inr candidate)
              (\<lambda>candidate.
                 and_then (exists e candidate)
                   (\<lambda>x. if x then
                          and_then (is_file e candidate)
                            (\<lambda>f. if f then
                                   (if prefix (str_path project_root) (str_path candidate)
                                    then Inr (insert candidate found)
                                    else Inr (insert candidate found))
                                 else Inr found)
                        else Inr found))))"

text \<open>The loop inside the \<^verbatim>\<open>try\<close>: an error in one iteration ends the loop, and the
  function returns what it had found until then.\<close>

fun literal_loop :: "env \<Rightarrow> path \<Rightarrow> path \<Rightarrow> string list \<Rightarrow> path set \<Rightarrow> path set" where
  "literal_loop e py_file project_root [] found = found"
| "literal_loop e py_file project_root (raw # raws) found =
     (case literal_step e py_file project_root raw found of
        Inl _ \<Rightarrow> found
      | Inr found' \<Rightarrow> literal_loop e py_file project_root raws found')"

definition find_literal_files :: "env \<Rightarrow> path \<Rightarrow> path \<Rightarrow> path set" where
  "find_literal_files e py_file project_root =
     (case read_text e py_file of
        Inl _ \<Rightarrow> {}
      | Inr src \<Rightarrow> literal_loop e py_file project_root (finditer src) {})"

section \<open>Project scanner\<close>

text \<open>The dictionary \<^verbatim>\<open>scan_project\<close> returns; its key \<^verbatim>\<open>imports\<close> is the field
  \<open>static_imports\<close>.\<close>

record ScanResult =
  project_root :: path
  static_imports :: "string set"
  dynamic_imports :: "string set"
  literal_files :: "path set"

text \<open>
  The list \<^verbatim>\<open>files\<close>: the entry script as it was passed, then every regular file of the
  recursive glob, resolved. \<^verbatim>\<open>is_file\<close> and \<^verbatim>\<open>resolve\<close> stand outside any \<^verbatim>\<open>try\<close>.
\<close>

fun collect_loop :: "env \<Rightarrow> path list \<Rightarrow> path list \<Rightarrow> py_error + path list" where
  "collect_loop e [] files = Inr files"
| "collect_loop e (p # ps) files =
     and_then (is_file e p)
       (\<lambda>f. if f then and_then (resolve e p) (\<lambda>q. collect_loop e ps (files @ [q]))
            else collect_loop e ps files)"

definition collect_files :: "env \<Rightarrow> path \<Rightarrow> path \<Rightarrow> bool \<Rightarrow> py_error + path list" where
  "collect_files e root script scan_all_py =
     (let files = [script]
      in if scan_all_py then collect_loop e (rglob_py e root) files else Inr files)"

text \<open>
  \<^verbatim>\<open>set(files)\<close>, the collection the loop runs over. A Python set iterates in no fixed
  order; \<open>remdups\<close> fixes one, and the three unions the loop builds do not depend on it.
\<close>

definition scan_files :: "env \<Rightarrow> path \<Rightarrow> bool \<Rightarrow> py_error + path list" where
  "scan_files e script scan_all_py =
     and_then (resolve e (path_parent script))
       (\<lambda>root. and_then (collect_files e root script scan_all_py)
                 (\<lambda>files. Inr (remdups files)))"

definition scan_step :: "env \<Rightarrow> path \<Rightarrow> path \<Rightarrow> ScanResult \<Rightarrow> ScanResult" where
  "scan_step e root f r =
     (let (imps, dyn) = parse_imports_from_file e f
      in r\<lparr>static_imports := static_imports r \<union> imps,
           dynamic_imports := dynamic_imports r \<union> dyn,
           literal_files := literal_files r \<union> find_literal_files e f root\<rparr>)"

definition scan_project :: "env \<Rightarrow> path \<Rightarrow> bool \<Rightarrow> py_error + ScanResult" where
  "scan_project e script scan_all_py =
     and_then (resolve e (path_parent script))
       (\<lambda>root.
          and_then (collect_files e root script scan_all_py)
            (\<lambda>files.
               Inr (fold (scan_step e root) (remdups files)
                      \<lparr>project_root = root, static_imports = {}, dynamic_imports = {},
                       literal_files = {}\<rparr>)))"

section \<open>Data and path mapper\<close>

text \<open>
  The body of the loop of \<^verbatim>\<open>map_add_data_entries\<close> for one path. \<^verbatim>\<open>resolve\<close> stands
  before the \<^verbatim>\<open>try\<close>. Inside it \<^verbatim>\<open>relative_to\<close> or \<^verbatim>\<open>is_file\<close> may raise; the
  \<^verbatim>\<open>except\<close> branch then asks \<^verbatim>\<open>is_file\<close> again, unprotected.
\<close>

definition map_one :: "env \<Rightarrow> path \<Rightarrow> path \<Rightarrow> py_error + path \<times> string" where
  "map_one e root p0 =
     and_then (resolve e p0)
       (\<lambda>p. case and_then (relative_to p root)
                    (\<lambda>rel. and_then (is_file e p)
                       (\<lambda>f. let dest = (if f then str_path (path_parent rel)
                                         else str_path rel)
                            in Inr (if dest = ''.'' then ''.'' else dest)))
            of
              Inr dest \<Rightarrow> Inr (p, dest)
            | Inl _ \<Rightarrow>
                and_then (is_file e p)
                  (\<lambda>f. Inr (p, if f then path_name p else path_name p)))"

fun map_loop ::
  "env \<Rightarrow> path \<Rightarrow> path list \<Rightarrow> (path \<times> string) list \<Rightarrow> py_error + (path \<times> string) list" where
  "map_loop e root [] mapped = Inr mapped"
| "map_loop e root (p # ps) mapped =
     and_then (map_one e root p) (\<lambda>t. map_loop e root ps (mapped @ [t]))"

definition map_add_data_entries ::
  "env \<Rightarrow> path list \<Rightarrow> path \<Rightarrow> py_error + (path \<times> string) list" where
  "map_add_data_entries e paths root = map_loop e root paths []"

section \<open>The specification's wording as definitions\<close>

text \<open>
  The order of section 4.7 of the specification, written as one concatenation: every
  optional part is a list that is empty when the part is absent. Whether the icon and the
  version resource are on the disk is asked of the environment, which may answer with an
  error; the order is stated for the two answers.
\<close>

definition given :: "string option \<Rightarrow> bool" where
  "given v = (case v of None \<Rightarrow> False | Some s \<Rightarrow> s \<noteq> [])"

definition on_disk :: "env \<Rightarrow> path option \<Rightarrow> py_error + bool" where
  "on_disk e v = (case v of None \<Rightarrow> Inr False | Some p \<Rightarrow> exists e p)"

definition command_order :: "env \<Rightarrow> BuildSpec \<Rightarrow> bool \<Rightarrow> bool \<Rightarrow> string list" where
  "command_order e b icon_on_disk version_on_disk =
     [sys_executable e, ''-m'', ''PyInstaller'']
     @ (if clean b then [''--clean''] else [])
     @ (if noconfirm b then [''--noconfirm''] else [])
     @ [if onefile b then ''--onefile'' else ''--onedir'']
     @ (if windowed b then [''--windowed''] else [])
     @ (if given (name b) then [''--name'', the (name b)] else [])
     @ (if icon_on_disk then [''--icon'', str_path (the (icon_path b))] else [])
     @ concat (map (\<lambda>(p, dest).
          [''--add-data'', str_path p @ (if os_name e = ''nt'' then '';'' else '':'') @ dest])
          (add_datas b))
     @ concat (map (\<lambda>hi. [''--hidden-import'', hi]) (hidden_imports b))
     @ concat (map (\<lambda>pkg. [''--collect-all'', pkg]) (collect_all_pkgs b))
     @ concat (map (\<lambda>ep. [''--paths'', str_path ep])
          (case extra_paths b of Some eps \<Rightarrow> eps | None \<Rightarrow> []))
     @ (if noupx b then [''--noupx''] else [])
     @ (if given (runtime_tmpdir b) then [''--runtime-tmpdir'', the (runtime_tmpdir b)] else [])
     @ (if version_on_disk
        then [''--version-file'', str_path (the (version_file b))] else [])
     @ [str_path (script_path b)]"

text \<open>
  Dynamic imports (section 4.2): the module name of a call is its first positional argument
  when that is a string literal, and otherwise the value of the first keyword named
  \<^verbatim>\<open>name\<close> or \<^verbatim>\<open>module\<close> that is a string literal; only a name that is not empty counts.
\<close>

fun is_str_literal :: "node \<Rightarrow> bool" where
  "is_str_literal (Constant (CStr s)) = True"
| "is_str_literal _ = False"

fun nonempty_literal :: "node \<Rightarrow> string option" where
  "nonempty_literal (Constant (CStr s)) = (if s = [] then None else Some s)"
| "nonempty_literal _ = None"

definition named_keyword :: "string option \<times> node \<Rightarrow> bool" where
  "named_keyword k =
     ((fst k = Some ''name'' \<or> fst k = Some ''module'') \<and> nonempty_literal (snd k) \<noteq> None)"

definition keyword_module_name :: "(string option \<times> node) list \<Rightarrow> string option" where
  "keyword_module_name kws =
     (case find named_keyword kws of Some k \<Rightarrow> nonempty_literal (snd k) | None \<Rightarrow> None)"

definition literal_module_name ::
  "node list \<Rightarrow> (string option \<times> node) list \<Rightarrow> string option" where
  "literal_module_name args kws =
     (case args of
        a # _ \<Rightarrow> if is_str_literal a then nonempty_literal a else keyword_module_name kws
      | [] \<Rightarrow> keyword_module_name kws)"

definition dynamic_contribution :: "node \<Rightarrow> string set" where
  "dynamic_contribution n =
     (case n of
        Call f args kws \<Rightarrow>
          if func_name f = ''import_module'' \<or> func_name f = ''__import__''
          then (case literal_module_name args kws of
                  Some s \<Rightarrow> {top_level_module s}
                | None \<Rightarrow> {})
          else {}
      | _ \<Rightarrow> {})"

text \<open>
  Static imports: in an \<^verbatim>\<open>import\<close> statement no module name is empty, and a
  \<^verbatim>\<open>from\<close> import has a module name that is not empty or none at all (a relative
  import), which is what the grammar allows. The modules a statement references are the
  top-level segments of these names.
\<close>

fun import_statement :: "node \<Rightarrow> bool" where
  "import_statement (Import names) = list_all (\<lambda>a. a \<noteq> []) names"
| "import_statement (ImportFrom module names level) = (module \<noteq> Some [])"
| "import_statement _ = False"

fun statement_modules :: "node \<Rightarrow> string set" where
  "statement_modules (Import names) = top_level_module ` set names"
| "statement_modules (ImportFrom (Some m) names level) = {top_level_module m}"
| "statement_modules _ = {}"

definition referenced_modules :: "node list \<Rightarrow> string set" where
  "referenced_modules body = \<Union> (set (map statement_modules body))"

text \<open>A file that cannot be read or cannot be parsed.\<close>

definition unparseable :: "env \<Rightarrow> path \<Rightarrow> bool" where
  "unparseable e f =
     (case read_text e f of
        Inl _ \<Rightarrow> True
      | Inr src \<Rightarrow> (case ast_parse e src of Inl _ \<Rightarrow> True | Inr _ \<Rightarrow> False))"

text \<open>
  Aggregation (section 4.4): the result of a scan is the project root with the unions of
  what the scanned files contribute, a file that cannot be read or parsed contributing no
  imports.
\<close>

definition aggregate :: "env \<Rightarrow> path \<Rightarrow> path list \<Rightarrow> ScanResult" where
  "aggregate e root files =
     \<lparr>project_root = root,
      static_imports = (\<Union>f \<in> set (filter (\<lambda>f. \<not> unparseable e f) files).
                          fst (parse_imports_from_file e f)),
      dynamic_imports = (\<Union>f \<in> set (filter (\<lambda>f. \<not> unparseable e f) files).
                          snd (parse_imports_from_file e f)),
      literal_files = (\<Union>f \<in> set files. find_literal_files e f root)\<rparr>"

text \<open>
  Destinations (section 4.5): a path lies under the root when the root is the path or one
  of its ancestors; its position relative to the root is what is left of it after the
  root's components.
\<close>

definition lies_under :: "path \<Rightarrow> path \<Rightarrow> bool" where
  "lies_under p root = (anchor p = anchor root \<and> prefix (segs root) (segs p))"

definition below_root :: "path \<Rightarrow> path \<Rightarrow> path" where
  "below_root p root = Path [] (drop (length (segs root)) (segs p))"

text \<open>The destination of a resolved path, given whether it is a regular file.\<close>

definition destination :: "path \<Rightarrow> path \<Rightarrow> bool \<Rightarrow> string" where
  "destination root p regular =
     (if lies_under p root then
        (if regular then str_path (below_root (path_parent p) root)
         else str_path (below_root p root))
      else path_name p)"

text \<open>One entry: the path is resolved, asked whether it is a regular file, and paired with
  its destination. A list of entries is made one by one, the first error ending it.\<close>

definition entry_of :: "env \<Rightarrow> path \<Rightarrow> path \<Rightarrow> py_error + path \<times> string" where
  "entry_of e root p0 =
     and_then (resolve e p0)
       (\<lambda>p. and_then (is_file e p) (\<lambda>regular. Inr (p, destination root p regular)))"

fun each :: "('a \<Rightarrow> py_error + 'b) \<Rightarrow> 'a list \<Rightarrow> py_error + 'b list" where
  "each f [] = Inr []"
| "each f (x # xs) = and_then (f x) (\<lambda>y. and_then (each f xs) (\<lambda>ys. Inr (y # ys)))"

text \<open>A path the mapper can handle: resolving it and testing the resolved path both
  answer.\<close>

definition mappable :: "env \<Rightarrow> path \<Rightarrow> bool" where
  "mappable e p =
     (case resolve e p of
        Inl _ \<Rightarrow> False
      | Inr q \<Rightarrow> (case is_file e q of Inl _ \<Rightarrow> False | Inr _ \<Rightarrow> True))"

section \<open>An example project\<close>

text \<open>
  A small project on a POSIX machine, used to run the definitions: the directory
  \<^verbatim>\<open>/proj\<close> with a script, a file that does not parse, a data file and an assets
  directory. The working directory is \<^verbatim>\<open>/proj\<close>, and there are no symbolic links, so
  resolving a path makes it absolute and removes its \<^verbatim>\<open>..\<close> components.
\<close>

definition proj :: path where
  "proj = Path ''/'' [''proj'']"

definition main_py :: path where
  "main_py = Path ''/'' [''proj'', ''main.py'']"

definition broken_py :: path where
  "broken_py = Path ''/'' [''proj'', ''broken.py'']"

definition cfg_json :: path where
  "cfg_json = Path ''/'' [''proj'', ''data'', ''cfg.json'']"

definition main_src :: string where
  "main_src =
     ''import os, json.tool'' @ [CHR 0x0A]
     @ ''from requests.api import get'' @ [CHR 0x0A]
     @ ''# data/cfg.json, data/none.yaml'' @ [CHR 0x0A]"

definition main_tree :: node where
  "main_tree =
     Module [Import [''os'', ''json.tool''],
             ImportFrom (Some ''requests.api'') [''get''] 0]"

fun collapse_dotdot :: "string list \<Rightarrow> string list \<Rightarrow> string list" where
  "collapse_dotdot acc [] = rev acc"
| "collapse_dotdot acc (w # ws) =
     (if w = ''..'' then collapse_dotdot (tl acc) ws else collapse_dotdot (w # acc) ws)"

definition proj_resolve :: "path \<Rightarrow> path" where
  "proj_resolve p = (let q = joinpath proj p in Path (anchor q) (collapse_dotdot [] (segs q)))"

definition proj_env :: env where
  "proj_env =
     \<lparr>os_name = ''posix'',
      sys_executable = ''/usr/bin/python3'',
      resolve = (\<lambda>p. Inr (proj_resolve p)),
      exists = (\<lambda>p. Inr (proj_resolve p \<in> set [Path ''/'' [], proj, main_py, broken_py,
                     cfg_json, Path ''/'' [''proj'', ''data''], Path ''/'' [''proj'', ''assets'']])),
      is_file = (\<lambda>p. Inr (proj_resolve p \<in> set [main_py, broken_py, cfg_json])),
      read_text = (\<lambda>p. if proj_resolve p = main_py then Inr main_src
                        else if proj_resolve p = broken_py then Inr ''def (''
                        else Inl OSError),
      ast_parse = (\<lambda>src. if src = main_src then Inr main_tree else Inl SyntaxError),
      rglob_py = (\<lambda>root. if root = proj then [broken_py, main_py] else []),
      find_spec = (\<lambda>m. if m = ''weird'' then Inl ValueError
                        else if m = ''sys'' then Inr (Some (Some ''built-in''))
                        else Inr None),
      sysconfig_stdlib = Path ''/'' [''usr'', ''lib'', ''python3.12'']\<rparr>"

definition app_spec :: BuildSpec where
  "app_spec =
     \<lparr>script_path = main_py,
      name = Some ''app'',
      onefile = True,
      windowed = False,
      clean = True,
      icon_path = Some (Path ''/'' [''proj'', ''icon.ico'']),
      add_datas = [(Path ''/'' [''proj'', ''assets''], ''assets'')],
      hidden_imports = [''requests''],
      collect_all_pkgs = [''yaml''],
      extra_paths = None,
      noconfirm = True,
      version_file = None,
      noupx = False,
      runtime_tmpdir = Some []\<rparr>"

text \<open>The same project with a directory \<^verbatim>\<open>/proj/locked\<close> that may not be searched: asking
  whether anything in it exists is refused by the operating system. And a build whose icon
  lies there.\<close>

definition locked_icon :: path where
  "locked_icon = Path ''/'' [''proj'', ''locked'', ''icon.ico'']"

definition locked_env :: env where
  "locked_env =
     proj_env\<lparr>exists := (\<lambda>p. if proj_resolve p = locked_icon then Inl OSError
                              else exists proj_env p),
              is_file := (\<lambda>p. if proj_resolve p = locked_icon then Inl OSError
                               else is_file proj_env p)\<rparr>"

definition locked_spec :: BuildSpec where
  "locked_spec = app_spec\<lparr>icon_path := Some locked_icon\<rparr>"

text \<open>Three dynamic-import calls: a literal first argument, a literal keyword after a
  first argument that is no literal, and no literal at all; and a call whose first argument
  is the empty string literal.\<close>

definition dyn_tree :: node where
  "dyn_tree =
     Module [Other [Call (Attribute (Name ''importlib'') ''import_module'')
                      [Constant (CStr ''yaml.parser'')] []],
             Other [Call (Name ''__import__'') [Name ''x'']
                      [(Some ''name'', Constant (CStr ''pkg.sub''))]],
             Other [Call (Name ''import_module'') [Name ''x''] []]]"

definition empty_literal_tree :: node where
  "empty_literal_tree =
     Module [Other [Call (Attribute (Name ''importlib'') ''import_module'')
                      [Constant (CStr [])] []]]"

text \<open>More paths of the example: a directory, a file outside the project, the entry script
  written relative to the working directory, the data file reached through \<^verbatim>\<open>..\<close>, and
  the working directory as the relative path \<^verbatim>\<open>.\<close>.\<close>

definition here :: path where
  "here = Path [] []"

definition assets_dir :: path where
  "assets_dir = Path ''/'' [''proj'', ''assets'']"

definition etc_ini :: path where
  "etc_ini = Path ''/'' [''etc'', ''app.ini'']"

definition relative_main :: path where
  "relative_main = Path [] [''main.py'']"

definition dotdot_cfg :: path where
  "dotdot_cfg = Path ''/'' [''proj'', ''x'', ''..'', ''data'', ''cfg.json'']"

section \<open>Errors passed on\<close>

lemma and_then_eq_Inr: "and_then m f = Inr y \<longleftrightarrow> (\<exists>x. m = Inr x \<and> f x = Inr y)"
  by (cases m) simp_all

lemma and_then_assoc: "and_then (and_then m f) g = and_then m (\<lambda>x. and_then (f x) g)"
  by (cases m) simp_all

lemma and_then_Inr_right: "and_then m Inr = m"
  by (cases m) simp_all

section \<open>Properties of the command assembler\<close>

lemma fold_append_concat:
  "fold (\<lambda>x c. c @ f x) xs cmd = cmd @ concat (map f xs)"
  by (induction xs arbitrary: cmd) simp_all

lemma fold_append_concat_pair:
  "fold (\<lambda>(p, d) c. c @ f p d) xs cmd = cmd @ concat (map (\<lambda>(p, d). f p d) xs)"
  by (induction xs arbitrary: cmd) (simp_all add: case_prod_beta)

lemma truthy_given: "truthy v = given v"
  by (cases v) (simp_all add: given_def)

lemma if_append: "(if c then xs @ ys else xs) = xs @ (if c then ys else [])"
  by simp

lemma on_disk_step:
  "(case v of
      Some p \<Rightarrow> and_then (exists e p) (\<lambda>x. Inr (if x then cmd @ f p else cmd))
    | None \<Rightarrow> Inr cmd)
     = and_then (on_disk e v) (\<lambda>i. Inr (cmd @ (if i then f (the v) else [])))"
  by (cases v; cases "exists e (the v)") (simp_all add: on_disk_def)

lemma and_then_Inr:
  "and_then (and_then m (\<lambda>i. Inr (g i))) k = and_then m (\<lambda>i. k (g i))"
  by (cases m) simp_all

lemma extra_paths_append:
  "(case v of Some eps \<Rightarrow> cmd @ concat (map g eps) | None \<Rightarrow> cmd)
     = cmd @ concat (map g (case v of Some eps \<Rightarrow> eps | None \<Rightarrow> []))"
  by (cases v) simp_all

lemma build_command_eq:
  "build_command e b =
     and_then (on_disk e (icon_path b))
       (\<lambda>i. and_then (on_disk e (version_file b)) (\<lambda>v. Inr (command_order e b i v)))"
  unfolding build_command_def quote_path_def data_sep_def
    fold_append_concat fold_append_concat_pair truthy_given on_disk_step
  unfolding extra_paths_append if_append
  unfolding Let_def and_then_Inr command_order_def append_assoc
  by (rule refl)

text \<open>
  C1 (as amended). The existence of the icon is asked first, when an icon is given, then
  that of the version resource, when one is given; an error of the operating system in
  either is the outcome of \<^verbatim>\<open>build_command\<close>. When both answer, \<^verbatim>\<open>build_command\<close>
  returns the arguments in the fixed order: the interpreter and bundler invocation, the
  clean flag if set, the no-confirm flag if set, exactly one of the two mode flags, the
  windowed flag if set, the output name if given, the icon only if its path exists on
  disk, one data mapping per pair joined with \<^verbatim>\<open>;\<close> on Windows and \<^verbatim>\<open>:\<close> elsewhere, one
  hidden import per name, one collect-all per heavy package, one search path per extra
  path, the no-compression flag if set, the runtime temporary directory if given, the
  version resource only if that file exists, and the entry script as the last element. A
  name or a temporary directory is given when it is neither \<^verbatim>\<open>None\<close> nor the empty
  string, which is how the source tests it.
\<close>

theorem build_command_order:
  "build_command e b =
     and_then (on_disk e (icon_path b))
       (\<lambda>i. and_then (on_disk e (version_file b)) (\<lambda>v. Inr (command_order e b i v)))
   \<and> (build_command e b = Inr cmd \<longrightarrow> last cmd = str_path (script_path b))"
proof -
  have l: "last (command_order e b i v) = str_path (script_path b)" for i v
    unfolding command_order_def by (simp only: append_assoc [symmetric] last_snoc)
  have "build_command e b = Inr cmd \<longrightarrow> last cmd = str_path (script_path b)"
    by (cases "on_disk e (icon_path b)"; cases "on_disk e (version_file b)")
       (auto simp: build_command_eq l)
  then show ?thesis using build_command_eq by simp
qed

theorem build_command_order_witness:
  "build_command proj_env app_spec =
     Inr [''/usr/bin/python3'', ''-m'', ''PyInstaller'', ''--clean'', ''--noconfirm'', ''--onefile'',
      ''--name'', ''app'', ''--add-data'', ''/proj/assets:assets'', ''--hidden-import'',
      ''requests'', ''--collect-all'', ''yaml'', ''/proj/main.py'']
   \<and> last [''/usr/bin/python3'', ''-m'', ''PyInstaller'', ''--clean'', ''--noconfirm'', ''--onefile'',
      ''--name'', ''app'', ''--add-data'', ''/proj/assets:assets'', ''--hidden-import'',
      ''requests'', ''--collect-all'', ''yaml'', ''/proj/main.py''] = str_path (script_path app_spec)"
  using build_command_order [of proj_env app_spec "[''/usr/bin/python3'', ''-m'', ''PyInstaller'', ''--clean'', ''--noconfirm'', ''--onefile'',
      ''--name'', ''app'', ''--add-data'', ''/proj/assets:assets'', ''--hidden-import'',
      ''requests'', ''--collect-all'', ''yaml'', ''/proj/main.py'']"]
  by (simp add: command_order_def proj_env_def app_spec_def given_def on_disk_def str_path_def
      main_py_def proj_resolve_def joinpath_def is_absolute_def proj_def slash_def
      broken_py_def cfg_json_def)

text \<open>
  C1 as it is stated fails: for a build whose icon lies in a directory that may not be
  searched \<^verbatim>\<open>build_command\<close> returns no argument list at all, the error of
  \<^verbatim>\<open>exists\<close> is its outcome.
\<close>

theorem build_command_raises:
  "icon_path locked_spec = Some locked_icon
   \<and> exists locked_env locked_icon = Inl OSError
   \<and> build_command locked_env locked_spec = Inl OSError"
  by (simp add: build_command_def Let_def locked_env_def locked_spec_def app_spec_def
      proj_env_def proj_resolve_def locked_icon_def joinpath_def is_absolute_def proj_def)

section \<open>Properties of the import extractor\<close>

lemma truthy_nonempty_literal:
  "(if truthy (extract_str_constant v) then extract_str_constant v else None) = nonempty_literal v"
  by (cases v rule: nonempty_literal.cases) simp_all

lemma truthy_extract: "truthy (extract_str_constant v) = (nonempty_literal v \<noteq> None)"
  by (cases v rule: nonempty_literal.cases) simp_all

lemma keyword_module_name_simps:
  "keyword_module_name [] = None"
  "keyword_module_name (k # kws) =
     (if named_keyword k then nonempty_literal (snd k) else keyword_module_name kws)"
  by (simp_all add: keyword_module_name_def)

lemma keyword_loop_spec:
  "\<not> truthy md \<Longrightarrow>
     (if truthy (keyword_loop md kws) then keyword_loop md kws else None) = keyword_module_name kws"
proof (induction kws arbitrary: md)
  case Nil
  then show ?case by (simp add: keyword_module_name_simps)
next
  case (Cons k kws)
  obtain arg v where k: "k = (arg, v)" by (cases k)
  show ?case
  proof (cases "arg = Some ''name'' \<or> arg = Some ''module''")
    case False
    then have "\<not> named_keyword k" by (simp add: k named_keyword_def)
    with False k Cons.IH [OF Cons.prems] show ?thesis
      by (simp add: keyword_module_name_simps split: if_splits)
  next
    case named: True
    show ?thesis
    proof (cases "truthy (extract_str_constant v)")
      case True
      then have "named_keyword k" using named by (simp add: k named_keyword_def truthy_extract)
      with named k True truthy_nonempty_literal [of v] show ?thesis
        by (simp add: keyword_module_name_simps)
    next
      case False
      then have "\<not> named_keyword k" by (simp add: k named_keyword_def truthy_extract)
      with named k False Cons.IH [OF False] show ?thesis
        by (simp add: keyword_module_name_simps split: if_splits)
    qed
  qed
qed

lemma fold_insert_union:
  "fold (\<lambda>a s. if P a then insert (g a) s else s) xs s0 = s0 \<union> g ` {a \<in> set xs. P a}"
  by (induction xs arbitrary: s0) auto

lemma visit_additive:
  "visit n (i, d) = (i \<union> fst (visit n ({}, {})), d \<union> snd (visit n ({}, {})))"
  by (cases n) (auto simp: fold_insert_union Let_def)

lemma fold_visit:
  "fold visit ns (i, d) =
     (i \<union> (\<Union>n \<in> set ns. fst (visit n ({}, {}))), d \<union> (\<Union>n \<in> set ns. snd (visit n ({}, {}))))"
proof (induction ns arbitrary: i d)
  case Nil
  then show ?case by simp
next
  case (Cons n ns)
  have "fold visit (n # ns) (i, d) = fold visit ns (visit n (i, d))" by simp
  also have "\<dots> = fold visit ns (i \<union> fst (visit n ({}, {})), d \<union> snd (visit n ({}, {})))"
    using visit_additive [of n i d] by simp
  finally show ?case by (simp add: Cons.IH Un_assoc)
qed

lemma visit_dynamic: "snd (visit n ({}, {})) = dynamic_contribution n"
proof (cases n)
  case (Call f args kws)
  show ?thesis
  proof (cases "func_name f = ''import_module'' \<or> func_name f = ''__import__''")
    case False
    with Call show ?thesis by (simp add: dynamic_contribution_def)
  next
    case callee: True
    show ?thesis
    proof (cases "case args of [] \<Rightarrow> None | a # _ \<Rightarrow> extract_str_constant a")
      case None
      then have lit: "literal_module_name args kws = keyword_module_name kws"
        by (cases args; cases "hd args" rule: is_str_literal.cases)
           (simp_all add: literal_module_name_def)
      from keyword_loop_spec [of None kws] None callee Call lit show ?thesis
        by (cases "keyword_module_name kws")
           (auto simp: dynamic_contribution_def Let_def split: if_splits)
    next
      case (Some s)
      then obtain a rest where args: "args = a # rest" and a: "a = Constant (CStr s)"
        by (cases args; cases "hd args" rule: is_str_literal.cases) auto
      with callee Call Some show ?thesis
        by (simp add: dynamic_contribution_def literal_module_name_def Let_def)
    qed
  qed
qed (simp_all add: dynamic_contribution_def)

text \<open>
  C3 (as amended). The dynamic-import set is exactly what the calls of the tree contribute:
  a call whose callee name, attribute or bare identifier, is \<^verbatim>\<open>import_module\<close> or
  \<^verbatim>\<open>__import__\<close> adds the top-level segment of its module name, taken from the first
  positional argument when that is a string literal and not empty, and, when there is no
  positional argument or the first one is no string literal, from the first keyword named
  \<^verbatim>\<open>name\<close> or \<^verbatim>\<open>module\<close> whose value is a string literal that is not empty; a call
  without such a literal, and every other node, adds nothing.
\<close>

theorem dynamic_imports_of_calls:
  "snd (parse_tree tree) = (\<Union>n \<in> set (walk tree). dynamic_contribution n)"
  by (simp add: parse_tree_def fold_visit visit_dynamic)

theorem dynamic_imports_of_calls_witness:
  "snd (parse_tree dyn_tree) = {''yaml'', ''pkg''}"
  using dynamic_imports_of_calls [of dyn_tree]
  by (simp add: dyn_tree_def walk_def dynamic_contribution_def literal_module_name_def
      keyword_module_name_def named_keyword_def top_level_module_def insert_commute)

text \<open>
  C3 as it is stated fails on the empty string literal: \<^verbatim>\<open>importlib.import_module("")\<close>
  has a string literal as its first positional argument, and the top-level segment of its
  value is not added.
\<close>

theorem empty_literal_not_added:
  "Call (Attribute (Name ''importlib'') ''import_module'') [Constant (CStr [])] []
     \<in> set (walk empty_literal_tree)
   \<and> extract_str_constant (Constant (CStr [])) = Some []
   \<and> top_level_module [] \<notin> snd (parse_tree empty_literal_tree)"
  by (simp add: empty_literal_tree_def walk_def parse_tree_def top_level_module_def)

lemma walk_queue_leaves: "\<forall>n \<in> set q. iter_child_nodes n = [] \<Longrightarrow> walk_queue q = q"
  by (induction q) simp_all

lemma import_statement_leaf: "import_statement s \<Longrightarrow> iter_child_nodes s = []"
  by (cases s) simp_all

lemma walk_imports_only:
  "\<forall>s \<in> set body. import_statement s \<Longrightarrow> walk (Module body) = Module body # body"
  by (simp add: walk_def walk_queue_leaves import_statement_leaf)

lemma visit_import_statement:
  "import_statement s \<Longrightarrow> visit s ({}, {}) = (statement_modules s, {})"
proof (cases s)
  case (Import names)
  assume "import_statement s"
  with Import have "{a \<in> set names. a \<noteq> []} = set names"
    by (auto simp: list_all_iff)
  with Import show ?thesis by (simp add: fold_insert_union)
next
  case (ImportFrom module names level)
  assume "import_statement s"
  with ImportFrom show ?thesis by (cases module) simp_all
qed simp_all

text \<open>
  C8. A file that reads and parses to a module whose body holds only \<^verbatim>\<open>import\<close> and
  \<^verbatim>\<open>from\<close> import statements yields exactly the set of the top-level names of the
  modules these statements reference, a relative import without a module name giving
  none, and an empty set of dynamic imports.
\<close>

theorem static_imports_only:
  assumes "read_text e f = Inr src" and "ast_parse e src = Inr (Module body)"
    and "\<forall>s \<in> set body. import_statement s"
  shows "parse_imports_from_file e f = (referenced_modules body, {})"
proof -
  have "parse_tree (Module body) = fold visit body ({}, {})"
    using assms(3) by (simp add: parse_tree_def walk_imports_only)
  also have "\<dots> = (\<Union>s \<in> set body. statement_modules s, {})"
    using assms(3) by (simp add: fold_visit visit_import_statement)
  finally show ?thesis
    using assms(1,2) by (simp add: parse_imports_from_file_def referenced_modules_def)
qed

theorem static_imports_only_witness:
  "parse_imports_from_file proj_env main_py = ({''os'', ''json'', ''requests''}, {})"
proof -
  have r: "read_text proj_env main_py = Inr main_src"
    by (simp add: proj_env_def proj_resolve_def main_py_def joinpath_def is_absolute_def)
  have p: "ast_parse proj_env main_src = Inr (Module [Import [''os'', ''json.tool''],
             ImportFrom (Some ''requests.api'') [''get''] 0])"
    by (simp add: proj_env_def main_tree_def)
  show ?thesis
    using static_imports_only [OF r p]
    by (simp add: referenced_modules_def top_level_module_def insert_commute)
qed

section \<open>Properties of the project scanner\<close>

lemma unparseable_empty: "unparseable e f \<Longrightarrow> parse_imports_from_file e f = ({}, {})"
  by (auto simp: unparseable_def parse_imports_from_file_def split: sum.splits)

lemma fold_scan_step:
  "fold (scan_step e root) fs r =
     r\<lparr>static_imports := static_imports r \<union> (\<Union>f \<in> set fs. fst (parse_imports_from_file e f)),
       dynamic_imports := dynamic_imports r \<union> (\<Union>f \<in> set fs. snd (parse_imports_from_file e f)),
       literal_files := literal_files r \<union> (\<Union>f \<in> set fs. find_literal_files e f root)\<rparr>"
proof (induction fs arbitrary: r)
  case Nil
  then show ?case by simp
next
  case (Cons f fs)
  have "fold (scan_step e root) (f # fs) r = fold (scan_step e root) fs (scan_step e root f r)"
    by simp
  also note Cons.IH [of "scan_step e root f r"]
  also have "scan_step e root f r
      \<lparr>static_imports := static_imports (scan_step e root f r)
           \<union> (\<Union>f \<in> set fs. fst (parse_imports_from_file e f)),
       dynamic_imports := dynamic_imports (scan_step e root f r)
           \<union> (\<Union>f \<in> set fs. snd (parse_imports_from_file e f)),
       literal_files := literal_files (scan_step e root f r)
           \<union> (\<Union>f \<in> set fs. find_literal_files e f root)\<rparr>
     = r\<lparr>static_imports := static_imports r
           \<union> (\<Union>f \<in> set (f # fs). fst (parse_imports_from_file e f)),
       dynamic_imports := dynamic_imports r
           \<union> (\<Union>f \<in> set (f # fs). snd (parse_imports_from_file e f)),
       literal_files := literal_files r
           \<union> (\<Union>f \<in> set (f # fs). find_literal_files e f root)\<rparr>"
    by (simp add: scan_step_def case_prod_beta Un_assoc)
  finally show ?case .
qed

lemma Union_parseable:
  "(\<Union>f \<in> set fs. g (parse_imports_from_file e f)) \<union> g ({}, {})
     = (\<Union>f \<in> set (filter (\<lambda>f. \<not> unparseable e f) fs). g (parse_imports_from_file e f)) \<union> g ({}, {})"
  by (auto simp: unparseable_empty)

lemma fold_scan_step_aggregate:
  "fold (scan_step e root) files
     \<lparr>project_root = root, static_imports = {}, dynamic_imports = {}, literal_files = {}\<rparr>
   = aggregate e root files"
  using Union_parseable [of fst e files] Union_parseable [of snd e files]
  by (simp add: fold_scan_step aggregate_def)

lemma scan_project_scan_files:
  "scan_project e script scan_all_py =
     and_then (resolve e (path_parent script))
       (\<lambda>root. and_then (scan_files e script scan_all_py)
                 (\<lambda>files. Inr (aggregate e root files)))"
  by (cases "resolve e (path_parent script)";
      cases "collect_files e (projr (resolve e (path_parent script))) script scan_all_py")
     (simp_all add: scan_project_def scan_files_def fold_scan_step_aggregate)

text \<open>
  C6. A file that cannot be read or cannot be parsed gives the pair of empty sets, and the
  scan still aggregates the other files: once the project root is resolved and the files
  are collected, the result is the aggregate over the collected files, in which the static
  and the dynamic imports are the unions over the files that do parse and the literal
  files the union over all of them. Only resolving the root or collecting the files can
  make the scan fail.
\<close>

theorem parse_failure_not_fatal:
  "(unparseable e f \<longrightarrow> parse_imports_from_file e f = ({}, {}))
   \<and> scan_project e script scan_all_py =
       and_then (resolve e (path_parent script))
         (\<lambda>root. and_then (scan_files e script scan_all_py)
                   (\<lambda>files. Inr (aggregate e root files)))"
  using scan_project_scan_files by (simp add: unparseable_empty)

lemma proj_scan_files: "scan_files proj_env main_py True = Inr [broken_py, main_py]"
  by (simp add: scan_files_def collect_files_def proj_env_def proj_resolve_def main_py_def
      broken_py_def proj_def joinpath_def is_absolute_def path_parent_def)

lemma proj_root: "resolve proj_env (path_parent main_py) = Inr proj"
  by (simp add: proj_env_def proj_resolve_def main_py_def proj_def joinpath_def is_absolute_def
      path_parent_def)

lemma proj_read_main: "read_text proj_env main_py = Inr main_src"
  by (simp add: proj_env_def proj_resolve_def main_py_def proj_def joinpath_def is_absolute_def)

lemma proj_read_broken: "read_text proj_env broken_py = Inr ''def (''"
  by (simp add: proj_env_def proj_resolve_def main_py_def broken_py_def proj_def joinpath_def
      is_absolute_def)

lemma proj_parse_main: "ast_parse proj_env main_src = Inr main_tree"
  by (simp add: proj_env_def)

lemma proj_parse_broken: "ast_parse proj_env ''def ('' = Inl SyntaxError"
  by (simp add: proj_env_def main_src_def)

lemma proj_main_imports:
  "parse_imports_from_file proj_env main_py = ({''os'', ''json'', ''requests''}, {})"
  by (simp add: parse_imports_from_file_def proj_read_main proj_parse_main main_tree_def
      parse_tree_def walk_def top_level_module_def insert_commute)

lemma main_src_matches:
  "finditer main_src = [''data/cfg.json'', ''data/none.yaml'']"
  by (simp add: main_src_def match_here_def match_dot_ext_def path_char_def ord_def
      FILE_EXTENSIONS_def lower_char_def slash_def backslash_def)

lemma proj_literal_files: "find_literal_files proj_env main_py proj = {cfg_json}"
  by (simp add: find_literal_files_def proj_read_main main_src_matches literal_step_def Let_def
      parse_path_def slash_def backslash_def is_absolute_def joinpath_def path_parent_def
      main_py_def proj_env_def proj_resolve_def proj_def cfg_json_def broken_py_def)

lemma broken_literal_files: "find_literal_files proj_env broken_py proj = {}"
  by (simp add: find_literal_files_def proj_read_broken match_here_def match_dot_ext_def
      path_char_def ord_def slash_def backslash_def)

theorem parse_failure_not_fatal_witness:
  "unparseable proj_env broken_py
   \<and> parse_imports_from_file proj_env broken_py = ({}, {})
   \<and> scan_project proj_env main_py True
       = Inr \<lparr>project_root = proj, static_imports = {''os'', ''json'', ''requests''},
              dynamic_imports = {}, literal_files = {cfg_json}\<rparr>"
proof -
  have u: "unparseable proj_env broken_py"
    by (simp add: unparseable_def proj_read_broken proj_parse_broken)
  have m: "\<not> unparseable proj_env main_py"
    by (simp add: unparseable_def proj_read_main proj_parse_main)
  have flt: "filter (\<lambda>f. \<not> unparseable proj_env f) [broken_py, main_py] = [main_py]"
    using u m by simp
  have agg: "aggregate proj_env proj [broken_py, main_py]
       = \<lparr>project_root = proj, static_imports = {''os'', ''json'', ''requests''},
          dynamic_imports = {}, literal_files = {cfg_json}\<rparr>"
    unfolding aggregate_def flt
    by (simp add: proj_main_imports proj_literal_files broken_literal_files)
  show ?thesis
    using u parse_failure_not_fatal [of proj_env broken_py main_py True]
    by (simp add: proj_scan_files proj_root agg)
qed

text \<open>
  C10. The collection the scanner loops over is meant to hold every file once. The walked
  files are resolved before they are collected, the entry script is not: given relative
  to the working directory it stays in the collection beside its own resolved path, and
  the file is scanned twice.
\<close>

theorem entry_script_scanned_twice:
  "scan_files proj_env relative_main True = Inr [relative_main, broken_py, main_py]
   \<and> relative_main \<noteq> main_py
   \<and> resolve proj_env relative_main = resolve proj_env main_py
   \<and> \<not> distinct (map (resolve proj_env) [relative_main, broken_py, main_py])"
  by (simp add: scan_files_def collect_files_def relative_main_def proj_env_def proj_resolve_def
      main_py_def broken_py_def proj_def joinpath_def is_absolute_def path_parent_def)

text \<open>With an entry script that is already in resolved form the collection is free of
  such pairs.\<close>

lemma collect_loop_set:
  "collect_loop e ps files = Inr out \<Longrightarrow>
     set out \<subseteq> set files \<union> {q. \<exists>p \<in> set ps. resolve e p = Inr q}"
proof (induction ps arbitrary: files)
  case Nil
  then show ?case by auto
next
  case (Cons p ps)
  show ?case
  proof (cases "is_file e p")
    case (Inl err)
    with Cons.prems show ?thesis by simp
  next
    case (Inr f)
    show ?thesis
    proof (cases f)
      case False
      with Inr Cons.prems have "collect_loop e ps files = Inr out" by simp
      from Cons.IH [OF this] show ?thesis by auto
    next
      case True
      show ?thesis
      proof (cases "resolve e p")
        case (Inl err)
        with Inr True Cons.prems show ?thesis by simp
      next
        case r: (Inr q)
        with Inr True Cons.prems have "collect_loop e ps (files @ [q]) = Inr out" by simp
        from Cons.IH [OF this] r show ?thesis by auto
      qed
    qed
  qed
qed

lemma scan_files_resolved_script:
  assumes "resolve e script = Inr script"
    and "\<forall>p q. resolve e p = Inr q \<longrightarrow> resolve e q = Inr q"
    and "scan_files e script scan_all_py = Inr files"
  shows "distinct (map (resolve e) files)"
proof -
  from assms(3) obtain root out where out: "collect_files e root script scan_all_py = Inr out"
    and files: "files = remdups out"
    by (cases "resolve e (path_parent script)";
        cases "collect_files e (projr (resolve e (path_parent script))) script scan_all_py")
       (auto simp: scan_files_def)
  have "set out \<subseteq> {script} \<union> {q. \<exists>p. resolve e p = Inr q}"
    using out collect_loop_set [of e "rglob_py e root" "[script]" out]
    by (auto simp: collect_files_def Let_def split: if_splits)
  with assms(1,2) have "\<forall>p \<in> set files. resolve e p = Inr p"
    by (auto simp: files)
  then have "map (resolve e) files = map Inr files" by simp
  moreover have "distinct (map Inr files :: (py_error + path) list)"
    by (simp add: files distinct_map inj_on_def)
  ultimately show ?thesis by (simp only:)
qed

section \<open>Properties of the literal file extractor\<close>

lemma literal_step_on_disk:
  assumes "\<forall>p \<in> found. exists e p = Inr True \<and> is_file e p = Inr True"
    and "literal_step e py_file root raw found = Inr found'"
  shows "\<forall>p \<in> found'. exists e p = Inr True \<and> is_file e p = Inr True"
  using assms
  by (auto simp: literal_step_def Let_def and_then_eq_Inr split: if_splits)

lemma literal_loop_on_disk:
  "\<forall>p \<in> found. exists e p = Inr True \<and> is_file e p = Inr True \<Longrightarrow>
     \<forall>p \<in> literal_loop e py_file root raws found. exists e p = Inr True \<and> is_file e p = Inr True"
proof (induction raws arbitrary: found)
  case Nil
  then show ?case by simp
next
  case (Cons raw raws)
  show ?case
  proof (cases "literal_step e py_file root raw found")
    case (Inl err)
    with Cons.prems show ?thesis by simp
  next
    case (Inr found')
    with Cons.prems have "\<forall>p \<in> found'. exists e p = Inr True \<and> is_file e p = Inr True"
      using literal_step_on_disk by blast
    from Cons.IH [OF this] Inr show ?thesis by simp
  qed
qed

text \<open>
  C7. Every path that \<^verbatim>\<open>find_literal_files\<close> returns exists and is a regular file in the
  scanned snapshot; a matched token whose path does not exist or is not a regular file is
  therefore never in the result.
\<close>

theorem literal_files_on_disk:
  "p \<in> find_literal_files e py_file root \<Longrightarrow> exists e p = Inr True \<and> is_file e p = Inr True"
proof (cases "read_text e py_file")
  case (Inl err)
  assume "p \<in> find_literal_files e py_file root"
  with Inl show ?thesis by (simp add: find_literal_files_def)
next
  case (Inr src)
  assume "p \<in> find_literal_files e py_file root"
  with Inr have "p \<in> literal_loop e py_file root (finditer src) {}"
    by (simp add: find_literal_files_def)
  moreover have "\<forall>p \<in> literal_loop e py_file root (finditer src) {}.
      exists e p = Inr True \<and> is_file e p = Inr True"
    by (rule literal_loop_on_disk) simp
  ultimately show ?thesis by blast
qed

theorem literal_files_on_disk_witness:
  "cfg_json \<in> find_literal_files proj_env main_py proj
   \<and> exists proj_env cfg_json = Inr True \<and> is_file proj_env cfg_json = Inr True
   \<and> Path ''/'' [''proj'', ''data'', ''none.yaml''] \<notin> find_literal_files proj_env main_py proj"
proof -
  have h: "cfg_json \<in> find_literal_files proj_env main_py proj"
    by (simp add: proj_literal_files)
  have n: "Path ''/'' [''proj'', ''data'', ''none.yaml''] \<notin> find_literal_files proj_env main_py proj"
    by (simp add: proj_literal_files cfg_json_def)
  from literal_files_on_disk [OF h] h n show ?thesis by simp
qed

section \<open>Properties of the path mapper\<close>

lemma take_prefix: "(take (length ys) xs = ys) = prefix ys xs"
  by (metis append_eq_conv_conj prefix_def)

lemma relative_to_lies_under:
  "relative_to p root = (if lies_under p root then Inr (below_root p root) else Inl ValueError)"
  by (simp add: relative_to_def lies_under_def below_root_def take_prefix)

lemma parent_below_root: "path_parent (below_root p root) = below_root (path_parent p) root"
  by (simp add: path_parent_def below_root_def drop_butlast)

lemma map_one_entry_of: "map_one e root p = entry_of e root p"
proof (cases "resolve e p")
  case (Inl err)
  then show ?thesis by (simp add: map_one_def entry_of_def)
next
  case (Inr q)
  show ?thesis
  proof (cases "is_file e q")
    case (Inl err)
    with Inr show ?thesis
      by (simp add: map_one_def entry_of_def relative_to_lies_under)
  next
    case f: (Inr f)
    with Inr show ?thesis
      by (simp add: map_one_def entry_of_def relative_to_lies_under destination_def
          parent_below_root Let_def)
  qed
qed

lemma map_loop_each:
  "map_loop e root ps mapped = and_then (each (map_one e root) ps) (\<lambda>ts. Inr (mapped @ ts))"
proof (induction ps arbitrary: mapped)
  case Nil
  then show ?case by simp
next
  case (Cons p ps)
  show ?case
    by (cases "map_one e root p"; cases "each (map_one e root) ps") (simp_all add: Cons.IH)
qed

lemma map_add_data_entries_each:
  "map_add_data_entries e paths root = each (entry_of e root) paths"
proof -
  have "(\<lambda>p. map_one e root p) = entry_of e root" by (rule ext) (rule map_one_entry_of)
  then show ?thesis
    by (simp add: map_add_data_entries_def map_loop_each and_then_Inr_right)
qed

lemma each_Inr: "each f xs = Inr ys \<longleftrightarrow> map f xs = map Inr ys"
proof (induction xs arbitrary: ys)
  case Nil
  then show ?case by auto
next
  case (Cons x xs)
  show ?case
  proof (cases "f x")
    case (Inl err)
    then show ?thesis by (cases ys) auto
  next
    case (Inr y)
    show ?thesis
    proof (cases "each f xs")
      case (Inl err)
      with Inr Cons.IH show ?thesis by (cases ys) auto
    next
      case r: (Inr zs)
      with Inr Cons.IH [of zs] Cons.IH show ?thesis by (cases ys) auto
    qed
  qed
qed

lemma each_isl: "isl (each f xs) \<longleftrightarrow> (\<exists>x \<in> set xs. isl (f x))"
proof (induction xs)
  case Nil
  then show ?case by simp
next
  case (Cons x xs)
  then show ?case by (cases "f x"; cases "each f xs") simp_all
qed

lemma entry_of_isl: "isl (entry_of e root p) \<longleftrightarrow> \<not> mappable e p"
  by (cases "resolve e p"; cases "is_file e (projr (resolve e p))")
     (simp_all add: entry_of_def mappable_def)

lemma entry_of_Inr:
  "entry_of e root p = Inr t \<Longrightarrow>
     resolve e p = Inr (fst t) \<and> snd t = destination root (fst t) (projr (is_file e (fst t)))"
  by (auto simp: entry_of_def and_then_eq_Inr)

text \<open>
  C2 (as amended). The mapper fails exactly when resolving some input path, or asking
  whether its resolved form is a regular file, raises. Otherwise it returns one entry per
  input path, in the order of the input, whose source is the resolved form of that path,
  and it suppresses nothing: the result has no two identical pairs exactly when no two
  input paths resolve to the same path.
\<close>

theorem map_entries_distinct:
  "(isl (map_add_data_entries e paths root) \<longleftrightarrow> \<not> list_all (mappable e) paths)
   \<and> (map_add_data_entries e paths root = Inr entries \<longrightarrow>
        map (resolve e) paths = map (\<lambda>t. Inr (fst t)) entries
        \<and> (distinct entries \<longleftrightarrow> distinct (map (resolve e) paths)))"
proof -
  have fails: "isl (map_add_data_entries e paths root) \<longleftrightarrow> \<not> list_all (mappable e) paths"
    by (simp add: map_add_data_entries_each each_isl entry_of_isl list_all_iff)
  have ok: "map (resolve e) paths = map (\<lambda>t. Inr (fst t)) entries
        \<and> (distinct entries \<longleftrightarrow> distinct (map (resolve e) paths))"
    if "map_add_data_entries e paths root = Inr entries"
  proof -
    from that have m: "map (entry_of e root) paths = map Inr entries"
      by (simp add: map_add_data_entries_each each_Inr)
    then have len: "length paths = length entries" by (rule map_eq_imp_length_eq)
    have each_entry: "entry_of e root (paths ! i) = Inr (entries ! i)" if "i < length paths" for i
      using m that len by (metis nth_map)
    have src: "map (resolve e) paths = map (\<lambda>t. Inr (fst t)) entries"
    proof (rule nth_equalityI)
      show "length (map (resolve e) paths) = length (map (\<lambda>t. Inr (fst t)) entries)"
        using len by simp
    next
      fix i assume "i < length (map (resolve e) paths)"
      then have i: "i < length paths" by simp
      with entry_of_Inr [OF each_entry [OF i]] len
      show "map (resolve e) paths ! i = map (\<lambda>t. Inr (fst t)) entries ! i" by simp
    qed
    define g where "g q = (q, destination root q (projr (is_file e q)))" for q
    have "t = g (fst t)" if "t \<in> set entries" for t
    proof -
      from that obtain i where i: "i < length entries" and t: "t = entries ! i"
        by (auto simp: in_set_conv_nth)
      from entry_of_Inr [OF each_entry [of i]] i len t show ?thesis
        by (simp add: g_def prod_eq_iff)
    qed
    then have "entries = map g (map fst entries)" by (simp add: map_idI)
    moreover have "inj g" by (simp add: inj_def g_def)
    ultimately have "distinct entries \<longleftrightarrow> distinct (map fst entries)"
      by (metis distinct_map inj_on_subset subset_UNIV)
    moreover have "distinct (map (\<lambda>t. Inr (fst t) :: py_error + path) entries)
                     \<longleftrightarrow> distinct (map fst entries)"
    proof -
      have "map (\<lambda>t. Inr (fst t) :: py_error + path) entries = map Inr (map fst entries)"
        by simp
      then show ?thesis by (simp only: distinct_map) (simp add: inj_on_def)
    qed
    ultimately show ?thesis using src by simp
  qed
  from fails ok show ?thesis by blast
qed

theorem map_entries_distinct_witness:
  "map_add_data_entries proj_env [cfg_json, main_py] proj
     = Inr [(cfg_json, ''data''), (main_py, ''.'')]
   \<and> list_all (mappable proj_env) [cfg_json, main_py]
   \<and> distinct [(cfg_json, ''data''), (main_py, ''.'')]
   \<and> distinct (map (resolve proj_env) [cfg_json, main_py])"
proof -
  have r: "map_add_data_entries proj_env [cfg_json, main_py] proj
     = Inr [(cfg_json, ''data''), (main_py, ''.'')]"
    by (simp add: map_add_data_entries_def map_one_def Let_def relative_to_def proj_env_def
        proj_resolve_def cfg_json_def proj_def joinpath_def is_absolute_def
        main_py_def broken_py_def path_parent_def str_path_def slash_def)
  show ?thesis
    using map_entries_distinct
      [of proj_env "[cfg_json, main_py]" proj "[(cfg_json, ''data''), (main_py, ''.'')]"] r
    by (simp add: cfg_json_def main_py_def)
qed

text \<open>
  C2 as it is stated fails: two different input paths that resolve to the same file give
  the same pair twice.
\<close>

theorem map_entries_duplicate:
  "dotdot_cfg \<noteq> cfg_json
   \<and> map_add_data_entries proj_env [dotdot_cfg, cfg_json] proj
       = Inr [(cfg_json, ''data''), (cfg_json, ''data'')]
   \<and> \<not> distinct [(cfg_json, ''data''), (cfg_json, ''data'')]"
  by (simp add: map_add_data_entries_def map_one_def Let_def relative_to_def proj_env_def
      proj_resolve_def cfg_json_def dotdot_cfg_def proj_def joinpath_def is_absolute_def
      main_py_def broken_py_def path_parent_def str_path_def slash_def)

text \<open>
  C9 (as amended). The mapper makes its entries one by one and stops at the first path
  whose resolution or file test raises. An entry pairs the resolved path with its
  destination, and the test for lying under the project root compares the components of
  the resolved path with those of the root as it was passed: when the root is the resolved
  path or one of its ancestors, the destination is the parent directory relative to the
  root for a regular file and the path itself relative to the root for anything else (a
  directory); in every other case it is the base name of the resolved path. A regular file
  directly in the root gets the current directory.
\<close>

theorem map_entries_destination:
  "map_add_data_entries e paths root = each (entry_of e root) paths
   \<and> (lies_under q root \<and> length (segs q) = Suc (length (segs root))
        \<longrightarrow> destination root q True = ''.'')"
proof -
  have "lies_under q root \<and> length (segs q) = Suc (length (segs root))
        \<longrightarrow> destination root q True = ''.''"
    by (simp add: destination_def below_root_def path_parent_def str_path_def)
  then show ?thesis by (simp add: map_add_data_entries_each)
qed

theorem map_entries_destination_witness:
  "map_add_data_entries proj_env [cfg_json, main_py, assets_dir, etc_ini] proj
     = Inr [(cfg_json, ''data''), (main_py, ''.''), (assets_dir, ''assets''), (etc_ini, ''app.ini'')]
   \<and> lies_under main_py proj
   \<and> length (segs main_py) = Suc (length (segs proj))
   \<and> destination proj main_py True = ''.''"
  using map_entries_destination [of proj_env "[cfg_json, main_py, assets_dir, etc_ini]" proj main_py]
  by (simp add: entry_of_def destination_def lies_under_def below_root_def path_parent_def
      path_name_def str_path_def proj_env_def proj_resolve_def cfg_json_def main_py_def
      broken_py_def assets_dir_def etc_ini_def proj_def joinpath_def is_absolute_def slash_def)

text \<open>
  C9 as it is stated fails: with the project root passed as \<^verbatim>\<open>.\<close>, the data file lies
  under the project root, which resolves to \<^verbatim>\<open>/proj\<close>, and its parent directory relative
  to the root is \<^verbatim>\<open>data\<close>, but the root is compared unresolved and the destination is
  the base name.
\<close>

theorem unresolved_root_gives_base_name:
  "resolve proj_env here = Inr proj
   \<and> resolve proj_env cfg_json = Inr cfg_json
   \<and> is_file proj_env cfg_json = Inr True
   \<and> lies_under cfg_json proj
   \<and> map_add_data_entries proj_env [cfg_json] here = Inr [(cfg_json, ''cfg.json'')]
   \<and> str_path (below_root (path_parent cfg_json) proj) = ''data''"
  by (simp add: map_add_data_entries_def map_one_def Let_def relative_to_def proj_env_def
      proj_resolve_def cfg_json_def here_def proj_def joinpath_def is_absolute_def
      main_py_def broken_py_def path_parent_def path_name_def str_path_def slash_def
      lies_under_def below_root_def)

section \<open>Properties of the module classifier\<close>

text \<open>
  C4. When the classification reaches the import-system lookup and the lookup raises, the
  module is classified as third-party; the error is not passed on.
\<close>

theorem lookup_failure_is_third_party:
  assumes "top_level_module md \<noteq> []" and "top_level_module md \<notin> stdlib"
    and "pkg_map (top_level_module md) = None"
    and "find_spec e (top_level_module md) = Inl err"
  shows "is_third_party e md stdlib pkg_map"
  using assms by (simp add: is_third_party_def locate_module_def)

theorem lookup_failure_is_third_party_witness:
  "top_level_module ''weird.sub'' = ''weird''
   \<and> find_spec proj_env ''weird'' = Inl ValueError
   \<and> is_third_party proj_env ''weird.sub'' {''os'', ''sys''} [''requests'' \<mapsto> [''requests'']]"
proof -
  have t: "top_level_module ''weird.sub'' = ''weird''" by (simp add: top_level_module_def)
  have f: "find_spec proj_env (top_level_module ''weird.sub'') = Inl ValueError"
    by (simp add: t proj_env_def)
  show ?thesis
    using lookup_failure_is_third_party
      [of "''weird.sub''" "{''os'', ''sys''}" "[''requests'' \<mapsto> [''requests'']]" proj_env ValueError] t f
    by simp
qed

text \<open>
  C5 (as amended). A name that is empty, or whose top-level segment is empty because it
  starts with a dot, is not third-party; a name whose top-level segment is in the
  standard-library set is not third-party; any other name whose top-level segment is a
  key of the package map is third-party.
\<close>

theorem classification_by_name:
  "(md = [] \<longrightarrow> \<not> is_third_party e md stdlib pkg_map)
   \<and> (top_level_module md = [] \<longrightarrow> \<not> is_third_party e md stdlib pkg_map)
   \<and> (top_level_module md \<in> stdlib \<longrightarrow> \<not> is_third_party e md stdlib pkg_map)
   \<and> (top_level_module md \<noteq> [] \<and> top_level_module md \<notin> stdlib
        \<and> top_level_module md \<in> dom pkg_map \<longrightarrow> is_third_party e md stdlib pkg_map)"
  by (auto simp: is_third_party_def top_level_module_def)

theorem classification_by_name_witness:
  "\<not> is_third_party proj_env [] {''os'', ''sys''} [''requests'' \<mapsto> [''requests'']]
   \<and> top_level_module ''.x'' = []
   \<and> \<not> is_third_party proj_env ''.x'' {''os'', ''sys''} [''requests'' \<mapsto> [''requests'']]
   \<and> \<not> is_third_party proj_env ''os.path'' {''os'', ''sys''} [''requests'' \<mapsto> [''requests'']]
   \<and> is_third_party proj_env ''requests.adapters'' {''os'', ''sys''} [''requests'' \<mapsto> [''requests'']]"
  using classification_by_name [of "[]" proj_env "{''os'', ''sys''}" "[''requests'' \<mapsto> [''requests'']]"]
    classification_by_name [of "''.x''" proj_env "{''os'', ''sys''}" "[''requests'' \<mapsto> [''requests'']]"]
    classification_by_name [of "''os.path''" proj_env "{''os'', ''sys''}" "[''requests'' \<mapsto> [''requests'']]"]
    classification_by_name [of "''requests.adapters''" proj_env "{''os'', ''sys''}" "[''requests'' \<mapsto> [''requests'']]"]
  by (simp add: top_level_module_def)

text \<open>
  C5 as it is stated fails: the name \<^verbatim>\<open>.x\<close> is not empty and its top-level segment, the
  empty string, is not in the standard-library set and is a key of this package map, yet
  the name is classified as not third-party.
\<close>

theorem empty_segment_not_third_party:
  "''.x'' \<noteq> []
   \<and> top_level_module ''.x'' \<notin> {''os'', ''sys''}
   \<and> top_level_module ''.x'' \<in> dom [[] \<mapsto> [''dist'']]
   \<and> \<not> is_third_party proj_env ''.x'' {''os'', ''sys''} [[] \<mapsto> [''dist'']]"
  by (simp add: is_third_party_def top_level_module_def)

end
